theory Spec2Isabelle
  imports Main
begin

section \<open>Go values used by the client\<close>

text \<open>
  A Go slice is either the nil slice (what \<^verbatim>\<open>var tagList []string\<close> declares) or a
  slice holding elements. \<^verbatim>\<open>append\<close> on the nil slice allocates a slice with the one
  element.
\<close>

datatype 'a slice = NilSlice | Slice "'a list"

fun append_slice :: "'a slice \<Rightarrow> 'a \<Rightarrow> 'a slice" where
  "append_slice NilSlice x = Slice [x]"
| "append_slice (Slice xs) x = Slice (xs @ [x])"

fun elems :: "'a slice \<Rightarrow> 'a list" where
  "elems NilSlice = []"
| "elems (Slice xs) = xs"

text \<open>
  Error values. \<^verbatim>\<open>goaviatrix.ErrNotFound\<close> is the sentinel that callers compare with
  \<^verbatim>\<open>==\<close>; \<open>ErrOther\<close> is any other error value handed back by the transport or a
  client method, with its message; \<open>Errorf\<close> is a fresh error built by
  \<^verbatim>\<open>fmt.Errorf(format, args...)\<close>, kept with its format string and arguments. A Go
  \<^verbatim>\<open>error\<close> result is an \<open>error option\<close>, \<open>None\<close> being \<^verbatim>\<open>nil\<close>.
\<close>

datatype error = ErrNotFound | ErrOther string | Errorf string "fmt_arg list"
and fmt_arg = ArgString string | ArgError error

text \<open>
  \<^verbatim>\<open>strconv.Itoa\<close> of the Go standard library: the base-10 text of an integer, with a
  leading minus sign for a negative one. \<open>decimal_value\<close> reads such a text back.
\<close>

fun digits10 :: "nat \<Rightarrow> string" where
  "digits10 n =
     (if n < 10 then [char_of (48 + n)]
      else digits10 (n div 10) @ [char_of (48 + n mod 10)])"

declare digits10.simps [simp del]

definition Itoa :: "int \<Rightarrow> string" where
  "Itoa i = (if i < 0 then CHR ''-'' # digits10 (nat (- i)) else digits10 (nat i))"

definition digit_value :: "char \<Rightarrow> nat" where
  "digit_value ch = of_char ch - 48"

definition digits_value :: "string \<Rightarrow> nat" where
  "digits_value s = foldl (\<lambda>a ch. 10 * a + digit_value ch) 0 s"

definition decimal_value :: "string \<Rightarrow> int" where
  "decimal_value s =
     (case s of
        [] \<Rightarrow> 0
      | ch # ds \<Rightarrow> if ch = CHR ''-'' then - int (digits_value ds) else int (digits_value s))"

text \<open>
  A Go \<^verbatim>\<open>map[string]string\<close> is a partial function; the nil map and the empty map
  read alike and are both \<open>Map.empty\<close> (the code below only reads maps it did not
  build). Indexing yields the zero value for a missing key.
\<close>

definition index_map :: "(string \<rightharpoonup> string) \<Rightarrow> string \<Rightarrow> string" where
  "index_map m k = (case m k of Some v \<Rightarrow> v | None \<Rightarrow> [])"


section \<open>goaviatrix: tags.go\<close>

record Tags =
  Action :: string
  CID :: string
  CloudType :: int
  ResourceType :: string
  ResourceName :: string
  TagList :: string
  Tags :: "string \<rightharpoonup> string"
  TagJson :: string

record TagAPIResp =
  Return :: bool
  Results :: "string \<rightharpoonup> (string \<rightharpoonup> string)"
  Reason :: string

text \<open>
  The second argument of \<^verbatim>\<open>PostAPI\<close> is an \<^verbatim>\<open>interface{}\<close>: tags.go passes either the
  \<^verbatim>\<open>Tags\<close> struct or a parameter map. The last argument of both transport calls is
  the response check; tags.go always passes \<^verbatim>\<open>BasicCheck\<close>.
\<close>

datatype post_body = StructBody Tags | MapBody "string \<rightharpoonup> string"

datatype check_func = BasicCheck


section \<open>goaviatrix: the device and gateway structs\<close>

text \<open>
  The fields of \<^verbatim>\<open>goaviatrix.Device\<close> and \<^verbatim>\<open>goaviatrix.Gateway\<close> that the resource code
  reads or writes. A struct literal that leaves a field out gives it the zero value.
\<close>

record Gateway =
  GwName :: string
  SoftwareVersion :: string

record Device =
  Name :: string
  PublicIP :: string
  Username :: string
  KeyFile :: string
  Password :: string
  HostOS :: string
  SshPort :: int
  SshPortStr :: string
  Address1 :: string
  Address2 :: string
  City :: string
  State :: string
  Country :: string
  ZipCode :: string
  Description :: string
  SoftwareVersion :: string
  IsCaag :: bool

definition zero_Device :: Device where
  "zero_Device =
     \<lparr>Name = [], PublicIP = [], Username = [], KeyFile = [], Password = [], HostOS = [],
      SshPort = 0, SshPortStr = [], Address1 = [], Address2 = [], City = [], State = [],
      Country = [], ZipCode = [], Description = [], SoftwareVersion = [], IsCaag = False\<rparr>"


section \<open>The client and the controller behind it\<close>

text \<open>
  \<^verbatim>\<open>goaviatrix.Client\<close> carries the session token \<^verbatim>\<open>CID\<close>. Its transport methods
  \<^verbatim>\<open>PostAPI\<close> and \<^verbatim>\<open>GetAPI\<close> and its device methods talk to the remote controller;
  they are parameters here. \<open>'w\<close> is the state of everything beyond the client (the
  controller and the network): each method takes it and returns it changed, so a
  call that is issued is a step of \<open>'w\<close> and a call that is not issued leaves \<open>'w\<close>
  alone. \<^verbatim>\<open>GetAPI\<close> decodes into the response struct it is handed and returns the
  error; \<^verbatim>\<open>GetDevice\<close> returns the device found or the error. The methods take their
  struct by pointer and are taken not to change the fields the callers read afterwards.
\<close>

record 'w Client =
  CID :: string
  PostAPI :: "string \<Rightarrow> post_body \<Rightarrow> check_func \<Rightarrow> 'w \<Rightarrow> error option \<times> 'w"
  GetAPI :: "string \<Rightarrow> (string \<rightharpoonup> string) \<Rightarrow> check_func \<Rightarrow> 'w
               \<Rightarrow> (TagAPIResp \<times> error option) \<times> 'w"
  RegisterDevice :: "Device \<Rightarrow> 'w \<Rightarrow> error option \<times> 'w"
  GetDevice :: "Device \<Rightarrow> 'w \<Rightarrow> (error + Device) \<times> 'w"
  UpdateDevice :: "Device \<Rightarrow> 'w \<Rightarrow> error option \<times> 'w"
  UpgradeGateway :: "Gateway \<Rightarrow> 'w \<Rightarrow> error option \<times> 'w"
  DeregisterDevice :: "Device \<Rightarrow> 'w \<Rightarrow> error option \<times> 'w"


section \<open>tags.go: the four tag operations\<close>

text \<open>
  Each operation takes the client, the caller's \<^verbatim>\<open>*Tags\<close> and the outside state, and
  returns its Go results, the struct as the caller finds it afterwards (where the
  operation writes to it), and the outside state.
\<close>

definition AddTags :: "'w Client \<Rightarrow> Tags \<Rightarrow> 'w \<Rightarrow> error option \<times> Tags \<times> 'w" where
  "AddTags c tags w =
     (let tags = tags\<lparr>Tags.CID := CID c\<rparr>;
          tags = tags\<lparr>Action := ''add_resource_tags''\<rparr>;
          (err, w) = PostAPI c (Action tags) (StructBody tags) BasicCheck w
      in (err, tags, w))"

text \<open>
  \<^verbatim>\<open>for key, val := range tagsMap\<close> visits every entry once, in an order the Go
  runtime picks. \<open>order\<close> is that pick: the keys of the map in the order of the
  visit. \<open>range_order m ks\<close> says that \<open>ks\<close> is such an order for \<open>m\<close>.
\<close>

definition range_order :: "(string \<rightharpoonup> string) \<Rightarrow> string list \<Rightarrow> bool" where
  "range_order m ks \<longleftrightarrow> distinct ks \<and> set ks = dom m"

fun range_tags :: "(string \<rightharpoonup> string) \<Rightarrow> string list \<Rightarrow> string slice \<Rightarrow> string slice" where
  "range_tags tagsMap [] tagList = tagList"
| "range_tags tagsMap (key # ks) tagList =
     (case tagsMap key of
        None \<Rightarrow> range_tags tagsMap ks tagList
      | Some val \<Rightarrow>
          (let tagStr = key @ '':'' @ val
           in range_tags tagsMap ks (append_slice tagList tagStr)))"

definition GetTags ::
  "'w Client \<Rightarrow> ((string \<rightharpoonup> string) \<Rightarrow> string list) \<Rightarrow> Tags \<Rightarrow> 'w
     \<Rightarrow> (string slice \<times> error option) \<times> Tags \<times> 'w" where
  "GetTags c order tags w =
     (let data = [''action'' \<mapsto> ''list_resource_tags'',
                  ''CID'' \<mapsto> CID c,
                  ''cloud_type'' \<mapsto> Itoa (CloudType tags),
                  ''resource_type'' \<mapsto> ResourceType tags,
                  ''resource_name'' \<mapsto> ResourceName tags];
          ((resp, err), w) = GetAPI c (index_map data ''action'') data BasicCheck w
      in if err \<noteq> None then ((NilSlice, err), tags, w)
         else (case Results resp ''usr_tags'' of
                 Some tagsMap \<Rightarrow>
                   (let tags = tags\<lparr>Tags := tagsMap\<rparr>;
                        tagList = range_tags tagsMap (order tagsMap) NilSlice
                    in ((tagList, None), tags, w))
               | None \<Rightarrow> ((NilSlice, None), tags, w)))"

definition DeleteTags :: "'w Client \<Rightarrow> Tags \<Rightarrow> 'w \<Rightarrow> error option \<times> 'w" where
  "DeleteTags c tags w =
     (let params = [''action'' \<mapsto> ''delete_resource_tag'',
                    ''CID'' \<mapsto> CID c,
                    ''cloud_type'' \<mapsto> Itoa (CloudType tags),
                    ''del_tag_list'' \<mapsto> TagList tags,
                    ''resource_name'' \<mapsto> ResourceName tags,
                    ''resource_type'' \<mapsto> ResourceType tags]
      in PostAPI c (index_map params ''action'') (MapBody params) BasicCheck w)"

definition UpdateTags :: "'w Client \<Rightarrow> Tags \<Rightarrow> 'w \<Rightarrow> error option \<times> Tags \<times> 'w" where
  "UpdateTags c tags w =
     (let tags = tags\<lparr>Tags.CID := CID c\<rparr>;
          tags = tags\<lparr>Action := ''update_resource_tags''\<rparr>;
          (err, w) = PostAPI c (Action tags) (StructBody tags) BasicCheck w
      in (err, tags, w))"


section \<open>The device-registration resource\<close>

text \<open>
  \<^verbatim>\<open>schema.ResourceData\<close> of the Terraform SDK, for the schema that
  \<^verbatim>\<open>resourceAviatrixDeviceRegistration\<close> declares: one field per attribute, of the
  attribute's schema type, so \<^verbatim>\<open>d.Get("name").(string)\<close> is the field \<open>name\<close> and an
  attribute that is not set reads as the zero value. \<open>attrs\<close> holds the values that
  \<^verbatim>\<open>d.Get\<close> reads and \<^verbatim>\<open>d.Set\<close> writes, \<open>prior\<close> the values stored before this
  operation, against which \<^verbatim>\<open>d.HasChange\<close> compares, and \<open>res_id\<close> the resource's ID
  (\<^verbatim>\<open>d.Id()\<close>, \<^verbatim>\<open>d.SetId\<close>).
\<close>

record Attrs =
  name :: string
  public_ip :: string
  username :: string
  key_file :: string
  password :: string
  host_os :: string
  ssh_port :: int
  address_1 :: string
  address_2 :: string
  city :: string
  state :: string
  country :: string
  zip_code :: string
  description :: string
  software_version :: string
  is_caag :: bool

record ResourceData =
  prior :: Attrs
  attrs :: Attrs
  res_id :: string

definition Get :: "ResourceData \<Rightarrow> (Attrs \<Rightarrow> 'a) \<Rightarrow> 'a" where
  "Get d key = key (attrs d)"

definition HasChange :: "ResourceData \<Rightarrow> (Attrs \<Rightarrow> 'a) \<Rightarrow> bool" where
  "HasChange d key \<longleftrightarrow> key (prior d) \<noteq> key (attrs d)"

definition SetId :: "ResourceData \<Rightarrow> string \<Rightarrow> ResourceData" where
  "SetId d v = d\<lparr>res_id := v\<rparr>"

definition marshalDeviceRegistrationInput :: "ResourceData \<Rightarrow> Device" where
  "marshalDeviceRegistrationInput d =
     \<lparr>Name = Get d name,
      PublicIP = Get d public_ip,
      Username = Get d username,
      KeyFile = Get d key_file,
      Password = Get d password,
      HostOS = Get d host_os,
      SshPort = Get d ssh_port,
      SshPortStr = Itoa (Get d ssh_port),
      Address1 = Get d address_1,
      Address2 = Get d address_2,
      City = Get d city,
      State = Get d state,
      Country = Get d country,
      ZipCode = Get d zip_code,
      Description = Get d description,
      SoftwareVersion = [],
      IsCaag = False\<rparr>"

text \<open>
  Each resource operation takes the resource data, the client (\<^verbatim>\<open>meta\<close>) and the
  outside state, and returns its error, the resource data as the SDK finds it
  afterwards, and the outside state.
\<close>

definition resourceAviatrixDeviceRegistrationCreate ::
  "ResourceData \<Rightarrow> 'w Client \<Rightarrow> 'w \<Rightarrow> error option \<times> ResourceData \<times> 'w" where
  "resourceAviatrixDeviceRegistrationCreate d client w =
     (let device = marshalDeviceRegistrationInput d;
          (err, w) = RegisterDevice client device w
      in case err of
           Some e \<Rightarrow> (Some (Errorf ''could not register device: %v'' [ArgError e]), d, w)
         | None \<Rightarrow> (None, SetId d (Name device), w))"

definition resourceAviatrixDeviceRegistrationRead ::
  "ResourceData \<Rightarrow> 'w Client \<Rightarrow> 'w \<Rightarrow> error option \<times> ResourceData \<times> 'w" where
  "resourceAviatrixDeviceRegistrationRead d client w =
     (let n = Get d name;
          (d, n) = (if n = [] then (let id = res_id d in (SetId d id, id)) else (d, n));
          device = zero_Device\<lparr>Name := n\<rparr>;
          (found, w) = GetDevice client device w
      in case found of
           Inl err \<Rightarrow>
             if err = ErrNotFound then (None, SetId d [], w)
             else (Some (Errorf ''could not find device %s: %v'' [ArgString n, ArgError err]),
                   d, w)
         | Inr device \<Rightarrow>
             (let d = d\<lparr>attrs := (attrs d)
                        \<lparr>name := Name device,
                         public_ip := PublicIP device,
                         username := Username device,
                         host_os := HostOS device,
                         ssh_port := SshPort device,
                         address_1 := Address1 device,
                         address_2 := Address2 device,
                         city := City device,
                         state := State device,
                         country := Country device,
                         zip_code := ZipCode device,
                         description := Description device,
                         software_version := SoftwareVersion device,
                         is_caag := IsCaag device\<rparr>\<rparr>
              in (None, SetId d (Name device), w)))"

definition resourceAviatrixDeviceRegistrationUpdate ::
  "ResourceData \<Rightarrow> 'w Client \<Rightarrow> 'w \<Rightarrow> error option \<times> ResourceData \<times> 'w" where
  "resourceAviatrixDeviceRegistrationUpdate d client w =
     (let device = marshalDeviceRegistrationInput d;
          (err, w) = UpdateDevice client device w
      in case err of
           Some e \<Rightarrow>
             (Some (Errorf ''could not update device registration information: %v''
                      [ArgError e]), d, w)
         | None \<Rightarrow>
             if HasChange d software_version then
               (let isCaag = Get d is_caag
                in if \<not> isCaag then
                     (Some (Errorf
                        (CHR 0x27 # ''software_version' can only be updated for managed cloudN (CaaG) devices'')
                        []), d, w)
                   else
                     (let softwareVersion = Get d software_version;
                          (err, w) = UpgradeGateway client
                             \<lparr>GwName = Name device,
                              Gateway.SoftwareVersion = softwareVersion\<rparr> w
                      in case err of
                           Some e \<Rightarrow>
                             (Some (Errorf ''could not upgrade CaaG: %v'' [ArgError e]), d, w)
                         | None \<Rightarrow> (None, SetId d (Name device), w)))
             else (None, SetId d (Name device), w))"

definition resourceAviatrixDeviceRegistrationDelete ::
  "ResourceData \<Rightarrow> 'w Client \<Rightarrow> 'w \<Rightarrow> error option \<times> ResourceData \<times> 'w" where
  "resourceAviatrixDeviceRegistrationDelete d client w =
     (let br = marshalDeviceRegistrationInput d;
          (err, w) = DeregisterDevice client br w
      in case err of
           Some e \<Rightarrow> (Some (Errorf ''could not deregister device: %v'' [ArgError e]), d, w)
         | None \<Rightarrow> (None, SetId d (Name br), w))"


section \<open>Definitions used to state the properties\<close>

text \<open>
  The parameter bag that the specification lists for \<^verbatim>\<open>GetTags\<close>, named so that the
  properties of \<^verbatim>\<open>GetTags\<close> can speak of the transport's reply to it.
\<close>

definition list_tags_request :: "'w Client \<Rightarrow> Tags \<Rightarrow> (string \<rightharpoonup> string)" where
  "list_tags_request c tags =
     [''action'' \<mapsto> ''list_resource_tags'',
      ''CID'' \<mapsto> CID c,
      ''cloud_type'' \<mapsto> Itoa (CloudType tags),
      ''resource_type'' \<mapsto> ResourceType tags,
      ''resource_name'' \<mapsto> ResourceName tags]"

text \<open>
  The shape that the specification gives to both \<^verbatim>\<open>AddTags\<close> and \<^verbatim>\<open>UpdateTags\<close>: stamp
  the session token and the action into the struct, post the whole struct under that
  action with the shared check, and hand back the transport's error.
\<close>

definition post_tags_as ::
  "string \<Rightarrow> 'w Client \<Rightarrow> Tags \<Rightarrow> 'w \<Rightarrow> error option \<times> Tags \<times> 'w" where
  "post_tags_as action c tags w =
     (let stamped = tags\<lparr>Tags.CID := CID c, Action := action\<rparr>;
          (err, w') = PostAPI c action (StructBody stamped) BasicCheck w
      in (err, stamped, w'))"


text \<open>
  The device name under which the read operation performs its lookup: the \<^verbatim>\<open>name\<close>
  attribute, or the resource's ID when that attribute is empty.
\<close>

definition lookup_name :: "ResourceData \<Rightarrow> string" where
  "lookup_name d = (if Get d name = [] then res_id d else Get d name)"

text \<open>
  A controller that records every call it receives, in order, accepts every post,
  registration, update, upgrade and deregistration, and answers \<^verbatim>\<open>GetAPI\<close> and
  \<^verbatim>\<open>GetDevice\<close> with fixed replies. Its state is the list of calls received.
\<close>

datatype call =
    PostCall string post_body check_func
  | GetCall string "string \<rightharpoonup> string" check_func
  | RegisterDeviceCall Device
  | GetDeviceCall Device
  | UpdateDeviceCall Device
  | UpgradeGatewayCall Gateway
  | DeregisterDeviceCall Device

definition recording_client ::
  "(TagAPIResp \<times> error option) \<Rightarrow> (error + Device) \<Rightarrow> call list Client" where
  "recording_client listed found =
     \<lparr>CID = ''session-1'',
      PostAPI = (\<lambda>action body check log. (None, log @ [PostCall action body check])),
      GetAPI = (\<lambda>action params check log. (listed, log @ [GetCall action params check])),
      RegisterDevice = (\<lambda>device log. (None, log @ [RegisterDeviceCall device])),
      GetDevice = (\<lambda>device log. (found, log @ [GetDeviceCall device])),
      UpdateDevice = (\<lambda>device log. (None, log @ [UpdateDeviceCall device])),
      UpgradeGateway = (\<lambda>gateway log. (None, log @ [UpgradeGatewayCall gateway])),
      DeregisterDevice = (\<lambda>device log. (None, log @ [DeregisterDeviceCall device]))\<rparr>"

text \<open>Concrete inputs: a tag set, three list-tags responses, a device and resource data.\<close>

definition example_tags :: Tags where
  "example_tags =
     \<lparr>Action = [], Tags.CID = [], CloudType = 1, ResourceType = ''gw'',
      ResourceName = ''transit-gw'', TagList = [], Tags = Map.empty, TagJson = []\<rparr>"

definition example_usr_tags :: "string \<rightharpoonup> string" where
  "example_usr_tags = [''env'' \<mapsto> ''prod'', ''team'' \<mapsto> ''net'']"

definition tagged_resp :: TagAPIResp where
  "tagged_resp =
     \<lparr>Return = True, Results = [''usr_tags'' \<mapsto> example_usr_tags], Reason = []\<rparr>"

definition untagged_resp :: TagAPIResp where
  "untagged_resp = \<lparr>Return = True, Results = Map.empty, Reason = []\<rparr>"

definition rejected_resp :: TagAPIResp where
  "rejected_resp = \<lparr>Return = False, Results = Map.empty, Reason = ''rejected''\<rparr>"

text \<open>
  A response that binds \<^verbatim>\<open>usr_tags\<close> but that the check rejects, a client whose
  \<^verbatim>\<open>GetAPI\<close> hands it over together with the error, and a visit order for the range
  loop.
\<close>

definition rejected_tagged_resp :: TagAPIResp where
  "rejected_tagged_resp =
     \<lparr>Return = False, Results = [''usr_tags'' \<mapsto> example_usr_tags], Reason = ''rejected''\<rparr>"

definition rejecting_client :: "call list Client" where
  "rejecting_client =
     recording_client (rejected_tagged_resp, Some (ErrOther ''rejected'')) (Inl ErrNotFound)"

definition team_first :: "(string \<rightharpoonup> string) \<Rightarrow> string list" where
  "team_first m = [''team'', ''env'']"

definition quiet_client :: "(error + Device) \<Rightarrow> call list Client" where
  "quiet_client found = recording_client (untagged_resp, None) found"

definition example_attrs :: Attrs where
  "example_attrs =
     \<lparr>name = ''dev1'', public_ip = ''1.2.3.4'', username = ''admin'', key_file = [],
      password = ''x'', host_os = ''ios'', ssh_port = 22, address_1 = [], address_2 = [],
      city = [], state = [], country = [], zip_code = [], description = [],
      software_version = ''6.5'', is_caag = False\<rparr>"

definition example_data :: ResourceData where
  "example_data = \<lparr>prior = example_attrs, attrs = example_attrs, res_id = ''dev1''\<rparr>"

definition version_change :: ResourceData where
  "version_change =
     \<lparr>prior = example_attrs, attrs = example_attrs\<lparr>software_version := ''6.6''\<rparr>,
      res_id = ''dev1''\<rparr>"

definition import_data :: ResourceData where
  "import_data =
     \<lparr>prior = example_attrs\<lparr>name := []\<rparr>, attrs = example_attrs\<lparr>name := []\<rparr>,
      res_id = ''dev1''\<rparr>"

definition example_device :: Device where
  "example_device =
     zero_Device\<lparr>Name := ''dev1'', PublicIP := ''1.2.3.4'', Username := ''admin'',
       HostOS := ''ios'', SshPort := 22, SoftwareVersion := ''6.5''\<rparr>"


section \<open>Decimal text\<close>

lemma digit_value_char_of: "d < 10 \<Longrightarrow> digit_value (char_of (48 + d)) = d"
  by (simp add: digit_value_def)

lemma digits_value_snoc: "digits_value (s @ [ch]) = 10 * digits_value s + digit_value ch"
  by (simp add: digits_value_def)

lemma digits_value_digits10: "digits_value (digits10 n) = n"
proof (induction n rule: digits10.induct)
  case (1 n)
  show ?case
  proof (cases "n < 10")
    case True
    then show ?thesis
      by (subst digits10.simps) (simp add: digits_value_def digit_value_char_of)
  next
    case False
    then have "digits_value (digits10 (n div 10)) = n div 10"
      using "1" by simp
    with False show ?thesis
      by (subst digits10.simps) (simp add: digits_value_snoc digit_value_char_of)
  qed
qed

lemma digits10_not_Nil: "digits10 n \<noteq> []"
  by (subst digits10.simps) simp

lemma digit_not_minus: "(d::nat) < 10 \<Longrightarrow> char_of (48 + d) \<noteq> CHR ''-''"
proof
  assume d: "d < 10" and eq: "char_of (48 + d) = CHR ''-''"
  from eq have "of_char (char_of (48 + d)) = (of_char (CHR ''-'') :: nat)"
    by simp
  with d show False by simp
qed

lemma hd_digits10: "hd (digits10 n) \<noteq> CHR ''-''"
proof (induction n rule: digits10.induct)
  case (1 n)
  show ?case
  proof (cases "n < 10")
    case True
    then show ?thesis
      by (subst digits10.simps) (simp add: digit_not_minus)
  next
    case False
    with "1" have "hd (digits10 (n div 10)) \<noteq> CHR ''-''" by simp
    with False show ?thesis
      by (subst digits10.simps) (simp add: digits10_not_Nil)
  qed
qed

text \<open>The text that \<open>Itoa\<close> writes reads back as the number it was given.\<close>

lemma decimal_value_Itoa: "decimal_value (Itoa i) = i"
proof (cases "i < 0")
  case True
  then show ?thesis
    by (simp add: decimal_value_def Itoa_def digits_value_digits10)
next
  case False
  obtain ch ds where ds: "digits10 (nat i) = ch # ds"
    using digits10_not_Nil [of "nat i"] by (cases "digits10 (nat i)") auto
  with hd_digits10 [of "nat i"] have "ch \<noteq> CHR ''-''" by simp
  with False ds show ?thesis
    using digits_value_digits10 [of "nat i"]
    by (simp add: decimal_value_def Itoa_def)
qed


section \<open>Properties of the tag operations\<close>

text \<open>
  \<^verbatim>\<open>GetTags\<close> is the transport's reply to one \<^verbatim>\<open>GetAPI\<close> call, post-processed.
\<close>

lemma GetTags_unfold:
  "GetTags c order tags w =
     (case GetAPI c ''list_resource_tags'' (list_tags_request c tags) BasicCheck w of
        ((resp, err), w') \<Rightarrow>
          if err \<noteq> None then ((NilSlice, err), tags, w')
          else (case Results resp ''usr_tags'' of
                  Some tagsMap \<Rightarrow>
                    ((range_tags tagsMap (order tagsMap) NilSlice, None),
                     tags\<lparr>Tags := tagsMap\<rparr>, w')
                | None \<Rightarrow> ((NilSlice, None), tags, w')))"
  by (simp add: GetTags_def list_tags_request_def index_map_def Let_def
        split: prod.splits option.splits)

text \<open>
  Claim C5. For every \<^verbatim>\<open>Tags\<close> input, \<^verbatim>\<open>GetTags\<close> issues one \<^verbatim>\<open>GetAPI\<close> call, under the
  action \<^verbatim>\<open>list_resource_tags\<close> with the check \<^verbatim>\<open>BasicCheck\<close>: the outside state it
  leaves and the error it returns are those of that call. The parameter map of the
  call has exactly the keys \<^verbatim>\<open>action\<close>, \<^verbatim>\<open>CID\<close>, \<^verbatim>\<open>cloud_type\<close>, \<^verbatim>\<open>resource_type\<close> and
  \<^verbatim>\<open>resource_name\<close>, bound to \<^verbatim>\<open>list_resource_tags\<close>, the client's session token, the
  decimal text of the cloud type (a text that reads back as that number), the
  resource type and the resource name.
\<close>

theorem GetTags_sends_params:
  "\<exists>data.
     snd (snd (GetTags c order tags w)) =
       snd (GetAPI c ''list_resource_tags'' data BasicCheck w)
     \<and> snd (fst (GetTags c order tags w)) =
         snd (fst (GetAPI c ''list_resource_tags'' data BasicCheck w))
     \<and> data = list_tags_request c tags
     \<and> dom data = {''action'', ''CID'', ''cloud_type'', ''resource_type'', ''resource_name''}
     \<and> data ''action'' = Some ''list_resource_tags''
     \<and> data ''CID'' = Some (CID c)
     \<and> data ''cloud_type'' = Some (Itoa (CloudType tags))
     \<and> decimal_value (Itoa (CloudType tags)) = CloudType tags
     \<and> data ''resource_type'' = Some (ResourceType tags)
     \<and> data ''resource_name'' = Some (ResourceName tags)"
proof -
  let ?data = "list_tags_request c tags"
  have w: "snd (snd (GetTags c order tags w)) =
             snd (GetAPI c ''list_resource_tags'' ?data BasicCheck w)"
    by (simp add: GetTags_unfold split: prod.splits option.splits)
  have e: "snd (fst (GetTags c order tags w)) =
             snd (fst (GetAPI c ''list_resource_tags'' ?data BasicCheck w))"
    by (simp add: GetTags_unfold split: prod.splits option.splits)
  have d: "dom ?data =
             {''action'', ''CID'', ''cloud_type'', ''resource_type'', ''resource_name''}"
    by (auto simp: list_tags_request_def)
  show ?thesis
    using w e d
    by (intro exI [of _ ?data])
       (simp add: decimal_value_Itoa, simp add: list_tags_request_def)
qed

text \<open>
  Claim C6. For every \<^verbatim>\<open>Tags\<close> input, \<^verbatim>\<open>DeleteTags\<close> is one \<^verbatim>\<open>PostAPI\<close> call under the
  action \<^verbatim>\<open>delete_resource_tag\<close> with the check \<^verbatim>\<open>BasicCheck\<close>, and its result is that
  call's error and nothing else. The parameter map posted has exactly the keys
  \<^verbatim>\<open>action\<close>, \<^verbatim>\<open>CID\<close>, \<^verbatim>\<open>cloud_type\<close>, \<^verbatim>\<open>del_tag_list\<close>, \<^verbatim>\<open>resource_name\<close> and
  \<^verbatim>\<open>resource_type\<close>, bound to \<^verbatim>\<open>delete_resource_tag\<close>, the session token, the decimal
  text of the cloud type, the caller's \<^verbatim>\<open>TagList\<close> string, the resource name and the
  resource type.
\<close>

theorem DeleteTags_posts_params:
  "\<exists>params.
     DeleteTags c tags w = PostAPI c ''delete_resource_tag'' (MapBody params) BasicCheck w
     \<and> dom params = {''action'', ''CID'', ''cloud_type'', ''del_tag_list'',
                      ''resource_name'', ''resource_type''}
     \<and> params ''action'' = Some ''delete_resource_tag''
     \<and> params ''CID'' = Some (CID c)
     \<and> params ''cloud_type'' = Some (Itoa (CloudType tags))
     \<and> decimal_value (Itoa (CloudType tags)) = CloudType tags
     \<and> params ''del_tag_list'' = Some (TagList tags)
     \<and> params ''resource_name'' = Some (ResourceName tags)
     \<and> params ''resource_type'' = Some (ResourceType tags)"
proof -
  let ?params = "[''action'' \<mapsto> ''delete_resource_tag'',
                  ''CID'' \<mapsto> CID c,
                  ''cloud_type'' \<mapsto> Itoa (CloudType tags),
                  ''del_tag_list'' \<mapsto> TagList tags,
                  ''resource_name'' \<mapsto> ResourceName tags,
                  ''resource_type'' \<mapsto> ResourceType tags]"
  have call: "DeleteTags c tags w =
                PostAPI c ''delete_resource_tag'' (MapBody ?params) BasicCheck w"
    by (simp add: DeleteTags_def index_map_def Let_def)
  have keys: "dom ?params = {''action'', ''CID'', ''cloud_type'', ''del_tag_list'',
                             ''resource_name'', ''resource_type''}"
    by auto
  show ?thesis
    using call keys by (intro exI [of _ ?params]) (simp add: decimal_value_Itoa)
qed

text \<open>
  Claim C7. \<^verbatim>\<open>AddTags\<close> and \<^verbatim>\<open>UpdateTags\<close> are the same operation up to the action
  string: each stamps the client's session token into \<^verbatim>\<open>CID\<close> and its action into
  \<^verbatim>\<open>Action\<close>, posts the whole struct under that action with \<^verbatim>\<open>BasicCheck\<close> and returns
  the transport's error; the actions are \<^verbatim>\<open>add_resource_tags\<close> and
  \<^verbatim>\<open>update_resource_tags\<close>, and the structs the two leave behind differ in \<^verbatim>\<open>Action\<close>
  only.
\<close>

theorem UpdateTags_as_AddTags:
  "AddTags c tags w = post_tags_as ''add_resource_tags'' c tags w
   \<and> UpdateTags c tags w = post_tags_as ''update_resource_tags'' c tags w
   \<and> fst (snd (UpdateTags c tags w)) =
       (fst (snd (AddTags c tags w)))\<lparr>Action := ''update_resource_tags''\<rparr>"
  by (simp add: AddTags_def UpdateTags_def post_tags_as_def Let_def split: prod.splits)

text \<open>
  What the range loop appends: one \<^verbatim>\<open>key:value\<close> string for each key of the order
  that the map binds, after what the list already held.
\<close>

lemma elems_append_slice: "elems (append_slice s x) = elems s @ [x]"
  by (cases s) simp_all

lemma elems_range_tags:
  "elems (range_tags m ks acc) =
     elems acc @ concat (map (\<lambda>k. case m k of None \<Rightarrow> [] | Some v \<Rightarrow> [k @ '':'' @ v]) ks)"
  by (induction ks arbitrary: acc) (simp_all add: elems_append_slice Let_def split: option.splits)

lemma set_range_tags:
  assumes "set ks = dom m"
  shows "set (elems (range_tags m ks NilSlice)) = {k @ '':'' @ v | k v. m k = Some v}"
proof -
  have "set (elems (range_tags m ks NilSlice)) =
          (\<Union>k\<in>set ks. set (case m k of None \<Rightarrow> [] | Some v \<Rightarrow> [k @ '':'' @ v]))"
    by (simp add: elems_range_tags)
  also have "\<dots> = {k @ '':'' @ v | k v. m k = Some v}"
    using assms by (auto split: option.splits) blast
  finally show ?thesis .
qed

lemma length_range_tags:
  assumes "set ks \<subseteq> dom m"
  shows "length (elems (range_tags m ks acc)) = length (elems acc) + length ks"
  using assms
  by (induction ks arbitrary: acc) (auto simp: elems_append_slice Let_def split: option.splits)

text \<open>
  Claim C2, as stated, fails: it speaks of every transport response whose results
  mapping binds \<^verbatim>\<open>usr_tags\<close>, but when \<^verbatim>\<open>GetAPI\<close> returns an error \<^verbatim>\<open>GetTags\<close> returns
  before it looks at the response. For a rejected response that binds \<^verbatim>\<open>usr_tags\<close> to a
  mapping of two tags it returns the nil list and the transport's error, and the
  caller's \<^verbatim>\<open>Tags\<close> field stays as it was, which is not that mapping.
\<close>

theorem GetTags_rejected_response_keeps_tags:
  "Results rejected_tagged_resp ''usr_tags'' = Some example_usr_tags
   \<and> GetAPI rejecting_client ''list_resource_tags''
         (list_tags_request rejecting_client example_tags) BasicCheck [] =
       ((rejected_tagged_resp, Some (ErrOther ''rejected'')),
        [GetCall ''list_resource_tags'' (list_tags_request rejecting_client example_tags)
           BasicCheck])
   \<and> GetTags rejecting_client team_first example_tags [] =
       ((NilSlice, Some (ErrOther ''rejected'')), example_tags,
        [GetCall ''list_resource_tags'' (list_tags_request rejecting_client example_tags)
           BasicCheck])
   \<and> Tags example_tags \<noteq> example_usr_tags
   \<and> set (elems (NilSlice :: string slice)) \<noteq> {''env:prod'', ''team:net''}"
proof -
  have bound: "Results rejected_tagged_resp ''usr_tags'' = Some example_usr_tags"
    by (simp add: rejected_tagged_resp_def)
  have call: "GetAPI rejecting_client ''list_resource_tags''
                (list_tags_request rejecting_client example_tags) BasicCheck [] =
              ((rejected_tagged_resp, Some (ErrOther ''rejected'')),
               [GetCall ''list_resource_tags''
                  (list_tags_request rejecting_client example_tags) BasicCheck])"
    by (simp add: rejecting_client_def recording_client_def)
  have run: "GetTags rejecting_client team_first example_tags [] =
               ((NilSlice, Some (ErrOther ''rejected'')), example_tags,
                [GetCall ''list_resource_tags''
                   (list_tags_request rejecting_client example_tags) BasicCheck])"
    by (simp add: GetTags_unfold call)
  have "Tags example_tags ''env'' = None"
    by (simp add: example_tags_def)
  moreover have "example_usr_tags ''env'' = Some ''prod''"
    by (simp add: example_usr_tags_def)
  ultimately have kept: "Tags example_tags \<noteq> example_usr_tags"
    by auto
  have none: "set (elems (NilSlice :: string slice)) \<noteq> {''env:prod'', ''team:net''}"
    by simp
  from bound call run kept none show ?thesis by simp
qed

text \<open>
  Claim C2, amended. For every transport response that \<^verbatim>\<open>GetAPI\<close> hands over with a
  nil error (the check accepted it) and whose results mapping binds \<^verbatim>\<open>usr_tags\<close> to a
  mapping \<open>M\<close>, \<^verbatim>\<open>GetTags\<close> sets the caller's \<^verbatim>\<open>Tags\<close> field to \<open>M\<close> and returns, with a
  nil error, a list whose elements are exactly the strings key, colon, value for the
  pairs of \<open>M\<close> (as a set, whatever order the range loop visits the keys in), one
  element for each key.
\<close>

theorem GetTags_lists_usr_tags:
  assumes "GetAPI c ''list_resource_tags'' (list_tags_request c tags) BasicCheck w =
             ((resp, None), w')"
    and "Results resp ''usr_tags'' = Some M"
    and "range_order M (order M)"
  shows "\<exists>tagList.
           GetTags c order tags w = ((tagList, None), tags\<lparr>Tags := M\<rparr>, w')
           \<and> set (elems tagList) = {key @ '':'' @ val | key val. M key = Some val}
           \<and> length (elems tagList) = card (dom M)"
proof -
  let ?tagList = "range_tags M (order M) NilSlice"
  from assms(3) have ks: "distinct (order M)" "set (order M) = dom M"
    by (simp_all add: range_order_def)
  have run: "GetTags c order tags w = ((?tagList, None), tags\<lparr>Tags := M\<rparr>, w')"
    using assms(1,2) by (simp add: GetTags_unfold)
  have members: "set (elems ?tagList) = {key @ '':'' @ val | key val. M key = Some val}"
    using ks(2) by (rule set_range_tags)
  have "length (elems ?tagList) = length (order M)"
    using ks(2) by (simp add: length_range_tags)
  also have "\<dots> = card (dom M)"
    using ks by (metis distinct_card)
  finally have count: "length (elems ?tagList) = card (dom M)" .
  from run members count show ?thesis by blast
qed

theorem GetTags_lists_usr_tags_witness:
  "range_order example_usr_tags [''team'', ''env'']
   \<and> (\<exists>tagList.
         GetTags (recording_client (tagged_resp, None) (Inl ErrNotFound))
           (\<lambda>m. [''team'', ''env'']) example_tags [] =
           ((tagList, None), example_tags\<lparr>Tags := example_usr_tags\<rparr>,
            [GetCall ''list_resource_tags''
               (list_tags_request (recording_client (tagged_resp, None) (Inl ErrNotFound))
                  example_tags)
               BasicCheck])
         \<and> set (elems tagList) =
             {key @ '':'' @ val | key val. example_usr_tags key = Some val}
         \<and> length (elems tagList) = card (dom example_usr_tags))"
proof -
  have ord: "range_order example_usr_tags [''team'', ''env'']"
    by (auto simp: range_order_def example_usr_tags_def)
  have call: "GetAPI (recording_client (tagged_resp, None) (Inl ErrNotFound))
                ''list_resource_tags''
                (list_tags_request (recording_client (tagged_resp, None) (Inl ErrNotFound))
                   example_tags)
                BasicCheck [] =
              ((tagged_resp, None),
               [GetCall ''list_resource_tags''
                  (list_tags_request (recording_client (tagged_resp, None) (Inl ErrNotFound))
                     example_tags)
                  BasicCheck])"
    by (simp add: recording_client_def)
  have res: "Results tagged_resp ''usr_tags'' = Some example_usr_tags"
    by (simp add: tagged_resp_def)
  show ?thesis
    using ord GetTags_lists_usr_tags [OF call res, of "\<lambda>m. [''team'', ''env'']"] by simp
qed

text \<open>
  With the order \<^verbatim>\<open>team\<close>, \<^verbatim>\<open>env\<close> the list is \<^verbatim>\<open>team:net\<close>, \<^verbatim>\<open>env:prod\<close>.
\<close>

lemma GetTags_example:
  "GetTags (recording_client (tagged_resp, None) (Inl ErrNotFound))
     (\<lambda>m. [''team'', ''env'']) example_tags [] =
     ((Slice [''team:net'', ''env:prod''], None), example_tags\<lparr>Tags := example_usr_tags\<rparr>,
            [GetCall ''list_resource_tags''
               (list_tags_request (recording_client (tagged_resp, None) (Inl ErrNotFound))
                  example_tags)
               BasicCheck])"
  by (simp add: GetTags_unfold recording_client_def tagged_resp_def example_usr_tags_def)

text \<open>
  Claim C3. For every transport response that the check accepts (\<^verbatim>\<open>GetAPI\<close> returns
  a nil error) and whose results mapping has no \<^verbatim>\<open>usr_tags\<close> key, \<^verbatim>\<open>GetTags\<close> returns
  the nil list and a nil error, and leaves the caller's struct as it was.
\<close>

theorem GetTags_without_usr_tags:
  assumes "GetAPI c ''list_resource_tags'' (list_tags_request c tags) BasicCheck w =
             ((resp, None), w')"
    and "Results resp ''usr_tags'' = None"
  shows "GetTags c order tags w = ((NilSlice, None), tags, w')"
  using assms by (simp add: GetTags_unfold)

theorem GetTags_without_usr_tags_witness:
  "Results untagged_resp ''usr_tags'' = None
   \<and> GetTags (recording_client (untagged_resp, None) (Inl ErrNotFound))
        (\<lambda>m. []) example_tags [] =
       ((NilSlice, None), example_tags,
        [GetCall ''list_resource_tags''
           (list_tags_request (recording_client (untagged_resp, None) (Inl ErrNotFound))
              example_tags)
           BasicCheck])"
proof -
  have res: "Results untagged_resp ''usr_tags'' = None"
    by (simp add: untagged_resp_def)
  have call: "GetAPI (recording_client (untagged_resp, None) (Inl ErrNotFound))
                ''list_resource_tags''
                (list_tags_request (recording_client (untagged_resp, None) (Inl ErrNotFound))
                   example_tags)
                BasicCheck [] =
              ((untagged_resp, None),
               [GetCall ''list_resource_tags''
                  (list_tags_request (recording_client (untagged_resp, None) (Inl ErrNotFound))
                     example_tags)
                  BasicCheck])"
    by (simp add: recording_client_def)
  show ?thesis
    using res GetTags_without_usr_tags [OF call res, of "\<lambda>m. []"] by simp
qed

text \<open>
  Claim C9. Frame property of \<^verbatim>\<open>GetTags\<close>: when the transport call fails, or the
  accepted response has no \<^verbatim>\<open>usr_tags\<close> key, the caller's struct is left entirely
  unchanged; and in every case the struct afterwards differs from the struct before
  in the \<^verbatim>\<open>Tags\<close> field at most.
\<close>

theorem GetTags_frame:
  "(GetAPI c ''list_resource_tags'' (list_tags_request c tags) BasicCheck w = ((resp, err), w')
      \<longrightarrow> err \<noteq> None \<or> Results resp ''usr_tags'' = None
      \<longrightarrow> fst (snd (GetTags c order tags w)) = tags)
   \<and> fst (snd (GetTags c order tags w)) =
       tags\<lparr>Tags := Tags (fst (snd (GetTags c order tags w)))\<rparr>"
  by (auto simp: GetTags_unfold split: prod.splits option.splits)

theorem GetTags_frame_witness:
  "fst (snd (GetTags (recording_client (rejected_resp, Some (ErrOther ''rejected''))
                        (Inl ErrNotFound))
               (\<lambda>m. []) example_tags [])) = example_tags
   \<and> fst (snd (GetTags (recording_client (untagged_resp, None) (Inl ErrNotFound))
               (\<lambda>m. []) example_tags [])) = example_tags
   \<and> fst (snd (GetTags (recording_client (tagged_resp, None) (Inl ErrNotFound))
               (\<lambda>m. [''env'', ''team'']) example_tags [])) =
       example_tags\<lparr>Tags := example_usr_tags\<rparr>"
proof -
  let ?failing = "recording_client (rejected_resp, Some (ErrOther ''rejected'')) (Inl ErrNotFound)"
  let ?untagged = "recording_client (untagged_resp, None) (Inl ErrNotFound)"
  let ?tagged = "recording_client (tagged_resp, None) (Inl ErrNotFound)"
  have a: "fst (snd (GetTags ?failing (\<lambda>m. []) example_tags [])) = example_tags"
    using GetTags_frame [of ?failing example_tags "[]" rejected_resp
        "Some (ErrOther ''rejected'')"
        "[GetCall ''list_resource_tags'' (list_tags_request ?failing example_tags) BasicCheck]"
        "\<lambda>m. []"]
    by (simp add: recording_client_def)
  have b: "fst (snd (GetTags ?untagged (\<lambda>m. []) example_tags [])) = example_tags"
    using GetTags_frame [of ?untagged example_tags "[]" untagged_resp None
        "[GetCall ''list_resource_tags'' (list_tags_request ?untagged example_tags) BasicCheck]"
        "\<lambda>m. []"]
    by (simp add: recording_client_def untagged_resp_def)
  have c: "fst (snd (GetTags ?tagged (\<lambda>m. [''env'', ''team'']) example_tags [])) =
       example_tags\<lparr>Tags := example_usr_tags\<rparr>"
    by (simp add: GetTags_unfold recording_client_def tagged_resp_def)
  from a b c show ?thesis by simp
qed


section \<open>Properties of the device-registration resource\<close>

lemma lookup_name_import: "name (attrs d) = [] \<Longrightarrow> lookup_name d = res_id d"
  by (simp add: lookup_name_def Get_def)

lemma lookup_name_named: "name (attrs d) \<noteq> [] \<Longrightarrow> lookup_name d = name (attrs d)"
  by (simp add: lookup_name_def Get_def)

text \<open>
  The read operation is the reply to one \<^verbatim>\<open>GetDevice\<close> call, for a device struct in
  which only \<^verbatim>\<open>Name\<close> is set, post-processed.
\<close>

lemma Read_unfold:
  "resourceAviatrixDeviceRegistrationRead d client w =
     (case GetDevice client (zero_Device\<lparr>Name := lookup_name d\<rparr>) w of
           (Inl err, w') \<Rightarrow>
             if err = ErrNotFound then (None, d\<lparr>res_id := []\<rparr>, w')
             else (Some (Errorf ''could not find device %s: %v''
                           [ArgString (lookup_name d), ArgError err]),
                   d, w')
         | (Inr device, w') \<Rightarrow>
             (None,
              d\<lparr>attrs := (attrs d)
                   \<lparr>name := Name device,
                    public_ip := PublicIP device,
                    username := Username device,
                    host_os := HostOS device,
                    ssh_port := SshPort device,
                    address_1 := Address1 device,
                    address_2 := Address2 device,
                    city := City device,
                    state := State device,
                    country := Country device,
                    zip_code := ZipCode device,
                    description := Description device,
                    software_version := SoftwareVersion device,
                    is_caag := IsCaag device\<rparr>,
                 res_id := Name device\<rparr>, w'))"
  by (simp add: resourceAviatrixDeviceRegistrationRead_def lookup_name_def Get_def SetId_def
        Let_def split: prod.splits sum.splits)

lemma Name_marshal: "Name (marshalDeviceRegistrationInput d) = name (attrs d)"
  by (simp add: marshalDeviceRegistrationInput_def Get_def)

lemma Create_unfold:
  "resourceAviatrixDeviceRegistrationCreate d client w =
     (case RegisterDevice client (marshalDeviceRegistrationInput d) w of
        (Some e, w') \<Rightarrow> (Some (Errorf ''could not register device: %v'' [ArgError e]), d, w')
      | (None, w') \<Rightarrow> (None, d\<lparr>res_id := Name (marshalDeviceRegistrationInput d)\<rparr>, w'))"
  by (simp add: resourceAviatrixDeviceRegistrationCreate_def SetId_def Let_def
        split: prod.splits option.splits)

lemma Update_id:
  "fst (resourceAviatrixDeviceRegistrationUpdate d client w) = None \<Longrightarrow>
   res_id (fst (snd (resourceAviatrixDeviceRegistrationUpdate d client w))) =
     Name (marshalDeviceRegistrationInput d)"
  by (simp add: resourceAviatrixDeviceRegistrationUpdate_def SetId_def Let_def
        split: prod.splits option.splits if_splits)

text \<open>
  Claim C1, as stated, fails: on an update that changes \<^verbatim>\<open>software_version\<close> on a
  device whose \<^verbatim>\<open>is_caag\<close> flag is false, the operation does return an error, but the
  controller has received the device-update call by then, so the outside state is
  not the one before the operation.
\<close>

theorem Update_issues_device_update_first:
  "HasChange version_change software_version
   \<and> \<not> Get version_change is_caag
   \<and> fst (resourceAviatrixDeviceRegistrationUpdate version_change
            (quiet_client (Inl ErrNotFound)) []) \<noteq> None
   \<and> snd (snd (resourceAviatrixDeviceRegistrationUpdate version_change
                  (quiet_client (Inl ErrNotFound)) [])) =
       [UpdateDeviceCall (marshalDeviceRegistrationInput version_change)]
   \<and> snd (snd (resourceAviatrixDeviceRegistrationUpdate version_change
                  (quiet_client (Inl ErrNotFound)) [])) \<noteq> []"
  by (simp add: resourceAviatrixDeviceRegistrationUpdate_def Let_def HasChange_def Get_def
        version_change_def example_attrs_def quiet_client_def recording_client_def)

text \<open>
  Claim C1, amended. For every update in which \<^verbatim>\<open>software_version\<close> has changed and
  the \<^verbatim>\<open>is_caag\<close> flag is false, the update operation issues the device-update call
  and nothing else, returns an error and leaves the resource data unchanged: the
  error is the domain error when the device-update call succeeded, and the wrapped
  error of that call when it failed. No gateway upgrade is issued: the outside state
  is the one the device-update call left.
\<close>

theorem Update_rejects_version_change:
  assumes "HasChange d software_version"
    and "\<not> Get d is_caag"
    and "UpdateDevice client (marshalDeviceRegistrationInput d) w = (r, w')"
  shows "resourceAviatrixDeviceRegistrationUpdate d client w =
           (Some (case r of
                    Some e \<Rightarrow>
                      Errorf ''could not update device registration information: %v''
                        [ArgError e]
                  | None \<Rightarrow>
                      Errorf (CHR 0x27 # ''software_version' can only be updated for managed cloudN (CaaG) devices'')
                        []),
            d, w')"
  using assms
  by (simp add: resourceAviatrixDeviceRegistrationUpdate_def Let_def split: option.splits)

theorem Update_rejects_version_change_witness:
  "HasChange version_change software_version
   \<and> \<not> Get version_change is_caag
   \<and> resourceAviatrixDeviceRegistrationUpdate version_change (quiet_client (Inl ErrNotFound)) [] =
       (Some (Errorf (CHR 0x27 # ''software_version' can only be updated for managed cloudN (CaaG) devices'') []),
        version_change,
        [UpdateDeviceCall (marshalDeviceRegistrationInput version_change)])"
proof -
  have h1: "HasChange version_change software_version"
    by (simp add: HasChange_def version_change_def example_attrs_def)
  have h2: "\<not> Get version_change is_caag"
    by (simp add: Get_def version_change_def example_attrs_def)
  have h3: "UpdateDevice (quiet_client (Inl ErrNotFound))
              (marshalDeviceRegistrationInput version_change) [] =
            (None, [UpdateDeviceCall (marshalDeviceRegistrationInput version_change)])"
    by (simp add: quiet_client_def recording_client_def)
  show ?thesis
    using h1 h2 Update_rejects_version_change [OF h1 h2 h3] by simp
qed

text \<open>
  Claim C4. Whenever the device lookup fails with \<^verbatim>\<open>ErrNotFound\<close>, the read operation
  clears the resource's ID and returns a nil error; on every other lookup error it
  returns an error (the lookup's error, wrapped) and leaves the resource data as it
  was.
\<close>

theorem Read_translates_NotFound:
  assumes "GetDevice client (zero_Device\<lparr>Name := lookup_name d\<rparr>) w = (Inl e, w')"
  shows "resourceAviatrixDeviceRegistrationRead d client w =
           (if e = ErrNotFound then (None, d\<lparr>res_id := []\<rparr>, w')
            else (Some (Errorf ''could not find device %s: %v''
                          [ArgString (lookup_name d), ArgError e]),
                  d, w'))"
  using assms by (simp add: Read_unfold)

theorem Read_translates_NotFound_witness:
  "resourceAviatrixDeviceRegistrationRead example_data (quiet_client (Inl ErrNotFound)) [] =
     (None, example_data\<lparr>res_id := []\<rparr>, [GetDeviceCall (zero_Device\<lparr>Name := ''dev1''\<rparr>)])
   \<and> resourceAviatrixDeviceRegistrationRead example_data
        (quiet_client (Inl (ErrOther ''timeout''))) [] =
       (Some (Errorf ''could not find device %s: %v''
                [ArgString ''dev1'', ArgError (ErrOther ''timeout'')]),
        example_data, [GetDeviceCall (zero_Device\<lparr>Name := ''dev1''\<rparr>)])"
proof -
  have n: "lookup_name example_data = ''dev1''"
    by (simp add: lookup_name_def Get_def example_data_def example_attrs_def)
  have a: "GetDevice (quiet_client (Inl ErrNotFound))
             (zero_Device\<lparr>Name := lookup_name example_data\<rparr>) [] =
           (Inl ErrNotFound, [GetDeviceCall (zero_Device\<lparr>Name := ''dev1''\<rparr>)])"
    by (simp add: n quiet_client_def recording_client_def)
  have b: "GetDevice (quiet_client (Inl (ErrOther ''timeout'')))
             (zero_Device\<lparr>Name := lookup_name example_data\<rparr>) [] =
           (Inl (ErrOther ''timeout''), [GetDeviceCall (zero_Device\<lparr>Name := ''dev1''\<rparr>)])"
    by (simp add: n quiet_client_def recording_client_def)
  show ?thesis
    using Read_translates_NotFound [OF a] Read_translates_NotFound [OF b] n by simp
qed

text \<open>
  Claim C8, as stated, fails for the read operation: a read whose lookup reports
  \<^verbatim>\<open>ErrNotFound\<close> returns a nil error and leaves the ID empty, not equal to the
  device's name.
\<close>

theorem Read_NotFound_clears_id:
  "fst (resourceAviatrixDeviceRegistrationRead example_data
          (quiet_client (Inl ErrNotFound)) []) = None
   \<and> res_id (fst (snd (resourceAviatrixDeviceRegistrationRead example_data
                         (quiet_client (Inl ErrNotFound)) []))) = []
   \<and> name (attrs (fst (snd (resourceAviatrixDeviceRegistrationRead example_data
                               (quiet_client (Inl ErrNotFound)) [])))) = ''dev1''"
  by (simp add: Read_unfold example_data_def example_attrs_def quiet_client_def
        recording_client_def)

text \<open>
  Claim C8, amended. Every create and every update that returns a nil error sets
  the resource's ID to the device's name, which is the \<^verbatim>\<open>name\<close> attribute; every read
  whose lookup returns a device returns a nil error and sets the ID, and the \<^verbatim>\<open>name\<close>
  attribute, to the name of that device; a read whose lookup reports \<^verbatim>\<open>ErrNotFound\<close>
  returns a nil error too and sets the ID to the empty string. The read performs one
  lookup, with a device struct in which only \<^verbatim>\<open>Name\<close> is set.
\<close>

theorem device_name_is_external_id:
  "(fst (resourceAviatrixDeviceRegistrationCreate d client w) = None \<longrightarrow>
      res_id (fst (snd (resourceAviatrixDeviceRegistrationCreate d client w))) =
        Name (marshalDeviceRegistrationInput d))
   \<and> (fst (resourceAviatrixDeviceRegistrationUpdate d client w) = None \<longrightarrow>
        res_id (fst (snd (resourceAviatrixDeviceRegistrationUpdate d client w))) =
          Name (marshalDeviceRegistrationInput d))
   \<and> Name (marshalDeviceRegistrationInput d) = Get d name
   \<and> (fst (GetDevice client
              (zero_Device\<lparr>Name := lookup_name d\<rparr>) w) =
          Inr device \<longrightarrow>
        fst (resourceAviatrixDeviceRegistrationRead d client w) = None
        \<and> res_id (fst (snd (resourceAviatrixDeviceRegistrationRead d client w))) = Name device
        \<and> Get (fst (snd (resourceAviatrixDeviceRegistrationRead d client w))) name =
            Name device)
   \<and> (fst (GetDevice client
              (zero_Device\<lparr>Name := lookup_name d\<rparr>) w) =
          Inl ErrNotFound \<longrightarrow>
        fst (resourceAviatrixDeviceRegistrationRead d client w) = None
        \<and> res_id (fst (snd (resourceAviatrixDeviceRegistrationRead d client w))) = [])
   \<and> snd (snd (resourceAviatrixDeviceRegistrationRead d client w)) =
       snd (GetDevice client
              (zero_Device\<lparr>Name := lookup_name d\<rparr>) w)"
proof -
  have create: "fst (resourceAviatrixDeviceRegistrationCreate d client w) = None \<longrightarrow>
      res_id (fst (snd (resourceAviatrixDeviceRegistrationCreate d client w))) =
        Name (marshalDeviceRegistrationInput d)"
    by (simp add: Create_unfold split: prod.splits option.splits)
  have update: "fst (resourceAviatrixDeviceRegistrationUpdate d client w) = None \<longrightarrow>
        res_id (fst (snd (resourceAviatrixDeviceRegistrationUpdate d client w))) =
          Name (marshalDeviceRegistrationInput d)"
    by (rule impI) (rule Update_id)
  have nm: "Name (marshalDeviceRegistrationInput d) = Get d name"
    by (simp add: Name_marshal Get_def)
  have read: "(fst (GetDevice client
              (zero_Device\<lparr>Name := lookup_name d\<rparr>) w) =
          Inr device \<longrightarrow>
        fst (resourceAviatrixDeviceRegistrationRead d client w) = None
        \<and> res_id (fst (snd (resourceAviatrixDeviceRegistrationRead d client w))) = Name device
        \<and> Get (fst (snd (resourceAviatrixDeviceRegistrationRead d client w))) name =
            Name device)
   \<and> (fst (GetDevice client
              (zero_Device\<lparr>Name := lookup_name d\<rparr>) w) =
          Inl ErrNotFound \<longrightarrow>
        fst (resourceAviatrixDeviceRegistrationRead d client w) = None
        \<and> res_id (fst (snd (resourceAviatrixDeviceRegistrationRead d client w))) = [])
   \<and> snd (snd (resourceAviatrixDeviceRegistrationRead d client w)) =
       snd (GetDevice client
              (zero_Device\<lparr>Name := lookup_name d\<rparr>) w)"
    by (simp add: Read_unfold Get_def split: prod.splits sum.splits)
  from create update nm read show ?thesis by blast
qed

theorem device_name_is_external_id_witness:
  "fst (resourceAviatrixDeviceRegistrationCreate example_data
          (quiet_client (Inr example_device)) []) = None
   \<and> res_id (fst (snd (resourceAviatrixDeviceRegistrationCreate example_data
                         (quiet_client (Inr example_device)) []))) = ''dev1''
   \<and> fst (resourceAviatrixDeviceRegistrationUpdate example_data
            (quiet_client (Inr example_device)) []) = None
   \<and> res_id (fst (snd (resourceAviatrixDeviceRegistrationUpdate example_data
                         (quiet_client (Inr example_device)) []))) = ''dev1''
   \<and> fst (resourceAviatrixDeviceRegistrationRead example_data
            (quiet_client (Inr example_device)) []) = None
   \<and> res_id (fst (snd (resourceAviatrixDeviceRegistrationRead example_data
                         (quiet_client (Inr example_device)) []))) = ''dev1''
   \<and> snd (snd (resourceAviatrixDeviceRegistrationRead example_data
                  (quiet_client (Inr example_device)) [])) =
       [GetDeviceCall (zero_Device\<lparr>Name := ''dev1''\<rparr>)]"
proof -
  let ?c = "quiet_client (Inr example_device)"
  have created: "fst (resourceAviatrixDeviceRegistrationCreate example_data ?c []) = None"
    by (simp add: Create_unfold quiet_client_def recording_client_def)
  have updated: "fst (resourceAviatrixDeviceRegistrationUpdate example_data ?c []) = None"
    by (simp add: resourceAviatrixDeviceRegistrationUpdate_def Let_def HasChange_def
          example_data_def quiet_client_def recording_client_def)
  have n: "lookup_name example_data = ''dev1''"
    by (simp add: lookup_name_def Get_def example_data_def example_attrs_def)
  have found: "fst (GetDevice ?c (zero_Device\<lparr>Name := lookup_name example_data\<rparr>) []) =
               Inr example_device"
    by (simp add: quiet_client_def recording_client_def)
  have nd: "Name example_device = ''dev1''"
    by (simp add: example_device_def)
  have nm: "Name (marshalDeviceRegistrationInput example_data) = ''dev1''"
    by (simp add: Name_marshal example_data_def example_attrs_def)
  note T = device_name_is_external_id [of example_data ?c "[]" example_device]
  from T created
  have c: "res_id (fst (snd (resourceAviatrixDeviceRegistrationCreate example_data ?c []))) =
             Name (marshalDeviceRegistrationInput example_data)"
    by blast
  from T updated
  have u: "res_id (fst (snd (resourceAviatrixDeviceRegistrationUpdate example_data ?c []))) =
             Name (marshalDeviceRegistrationInput example_data)"
    by blast
  from T found
  have r: "fst (resourceAviatrixDeviceRegistrationRead example_data ?c []) = None"
    and i: "res_id (fst (snd (resourceAviatrixDeviceRegistrationRead example_data ?c []))) =
              Name example_device"
    by blast+
  from T
  have "snd (snd (resourceAviatrixDeviceRegistrationRead example_data ?c [])) =
          snd (GetDevice ?c (zero_Device\<lparr>Name := lookup_name example_data\<rparr>) [])"
    by blast
  then have l: "snd (snd (resourceAviatrixDeviceRegistrationRead example_data ?c [])) =
                  [GetDeviceCall (zero_Device\<lparr>Name := ''dev1''\<rparr>)]"
    by (simp add: n quiet_client_def recording_client_def)
  from created c updated u r i l nd nm show ?thesis by simp
qed

text \<open>
  Claim C10. Import fallback: when the \<^verbatim>\<open>name\<close> attribute handed to the read
  operation is empty, the read looks the device up under the resource's existing ID
  (stamping that ID again changes nothing), so it returns the same error, leaves the
  same outside state and the same ID as a read of the same data with \<^verbatim>\<open>name\<close> set to
  that ID, and when the lookup returns a device it leaves the same resource data
  altogether.
\<close>

theorem Read_import_fallback:
  assumes "Get d name = []"
  shows "lookup_name d = res_id d
         \<and> snd (snd (resourceAviatrixDeviceRegistrationRead d client w)) =
             snd (GetDevice client (zero_Device\<lparr>Name := res_id d\<rparr>) w)
         \<and> SetId d (res_id d) = d
         \<and> fst (resourceAviatrixDeviceRegistrationRead d client w) =
             fst (resourceAviatrixDeviceRegistrationRead
                    (d\<lparr>attrs := (attrs d)\<lparr>name := res_id d\<rparr>\<rparr>) client w)
         \<and> snd (snd (resourceAviatrixDeviceRegistrationRead d client w)) =
             snd (snd (resourceAviatrixDeviceRegistrationRead
                         (d\<lparr>attrs := (attrs d)\<lparr>name := res_id d\<rparr>\<rparr>) client w))
         \<and> res_id (fst (snd (resourceAviatrixDeviceRegistrationRead d client w))) =
             res_id (fst (snd (resourceAviatrixDeviceRegistrationRead
                                 (d\<lparr>attrs := (attrs d)\<lparr>name := res_id d\<rparr>\<rparr>) client w)))
         \<and> (fst (GetDevice client (zero_Device\<lparr>Name := res_id d\<rparr>) w) = Inr device \<longrightarrow>
              resourceAviatrixDeviceRegistrationRead d client w =
                resourceAviatrixDeviceRegistrationRead
                  (d\<lparr>attrs := (attrs d)\<lparr>name := res_id d\<rparr>\<rparr>) client w)"
proof -
  let ?named = "d\<lparr>attrs := (attrs d)\<lparr>name := res_id d\<rparr>\<rparr>"
  from assms have n: "name (attrs d) = []" by (simp add: Get_def)
  then have look: "lookup_name d = res_id d" by (rule lookup_name_import)
  have look': "lookup_name ?named = res_id d"
    by (cases "res_id d = []") (simp_all add: lookup_name_def Get_def)
  obtain found w' where g: "GetDevice client (zero_Device\<lparr>Name := res_id d\<rparr>) w = (found, w')"
    by (cases "GetDevice client (zero_Device\<lparr>Name := res_id d\<rparr>) w")
  show ?thesis
    using g by (cases found) (simp_all add: Read_unfold look look' SetId_def)
qed

theorem Read_import_fallback_witness:
  "Get import_data name = []
   \<and> snd (snd (resourceAviatrixDeviceRegistrationRead import_data
                  (quiet_client (Inr example_device)) [])) =
       [GetDeviceCall (zero_Device\<lparr>Name := ''dev1''\<rparr>)]
   \<and> resourceAviatrixDeviceRegistrationRead import_data
        (quiet_client (Inr example_device)) [] =
       resourceAviatrixDeviceRegistrationRead
         (import_data\<lparr>attrs := (attrs import_data)\<lparr>name := ''dev1''\<rparr>\<rparr>)
         (quiet_client (Inr example_device)) []"
proof -
  let ?c = "quiet_client (Inr example_device)"
  have n: "Get import_data name = []"
    by (simp add: Get_def import_data_def)
  have i: "res_id import_data = ''dev1''"
    by (simp add: import_data_def)
  have g: "GetDevice ?c (zero_Device\<lparr>Name := ''dev1''\<rparr>) [] =
             (Inr example_device, [GetDeviceCall (zero_Device\<lparr>Name := ''dev1''\<rparr>)])"
    by (simp add: quiet_client_def recording_client_def)
  note T = Read_import_fallback [OF n, of ?c "[]" example_device]
  from T
  have "snd (snd (resourceAviatrixDeviceRegistrationRead import_data ?c [])) =
          snd (GetDevice ?c (zero_Device\<lparr>Name := res_id import_data\<rparr>) [])"
    by blast
  then have l: "snd (snd (resourceAviatrixDeviceRegistrationRead import_data ?c [])) =
                  [GetDeviceCall (zero_Device\<lparr>Name := ''dev1''\<rparr>)]"
    by (simp add: i g)
  have found: "fst (GetDevice ?c (zero_Device\<lparr>Name := res_id import_data\<rparr>) []) =
                 Inr example_device"
    by (simp add: i g)
  from T found
  have "resourceAviatrixDeviceRegistrationRead import_data ?c [] =
          resourceAviatrixDeviceRegistrationRead
            (import_data\<lparr>attrs := (attrs import_data)\<lparr>name := res_id import_data\<rparr>\<rparr>)
            ?c []"
    by blast
  then have e: "resourceAviatrixDeviceRegistrationRead import_data ?c [] =
                  resourceAviatrixDeviceRegistrationRead
                    (import_data\<lparr>attrs := (attrs import_data)\<lparr>name := ''dev1''\<rparr>\<rparr>) ?c []"
    by (simp only: i)
  from n l e show ?thesis by blast
qed

end
